theory Spec2Isabelle
  imports Main
begin

section \<open>Schema\<close>

text \<open>
  The migration declares an enumerated role type, the tables \<open>profiles\<close>,
  \<open>categories\<close> and \<open>products\<close>, row-level security policies and the trigger
  function \<open>handle_new_user\<close>. Rows are records, tables are lists of rows in
  insertion order, a nullable column is an \<open>option\<close> (\<open>None\<close> is SQL NULL), and
  a statement that raises returns \<open>Inl\<close> of the error, which aborts the
  transaction it runs in.
\<close>

type_synonym uuid = string
type_synonym timestamp = nat

text \<open>\<^verbatim>\<open>CREATE TYPE public.user_role AS ENUM ('buyer', 'seller')\<close>\<close>

datatype user_role = Buyer | Seller

datatype error =
    InvalidTextRepresentation string  \<comment> \<open>22P02: invalid input value for enum\<close>
  | UndefinedObject string            \<comment> \<open>42704: type does not exist, with the name\<close>
  | NotNullViolation string           \<comment> \<open>23502, with the column\<close>
  | ForeignKeyViolation string        \<comment> \<open>23503, with the column\<close>
  | UniqueViolation string            \<comment> \<open>23505, with the table\<close>
  | NumericValueOutOfRange string     \<comment> \<open>22003, with the column\<close>
  | RlsViolation string               \<comment> \<open>42501: new row violates row-level security policy\<close>
  | ServiceError string               \<comment> \<open>an error reported by the storage service or the transport\<close>

text \<open>
  A value stored under a key of a \<open>jsonb\<close> object: JSON null, a JSON string,
  or any other JSON value (number, boolean, array, object) carried as its JSON
  text, which is what the operator \<^verbatim>\<open>->>\<close> returns for it.
\<close>

datatype jsonb_value = JNull | JString string | JOther string

type_synonym jsonb_object = "string \<rightharpoonup> jsonb_value"

text \<open>
  The columns of \<open>auth.users\<close> that the trigger reads. The table belongs to
  the identity provider; \<^verbatim>\<open>REFERENCES auth.users\<close> refers to its primary key
  \<open>id\<close>. \<open>raw_user_meta_data\<close> is \<open>None\<close> when the column is NULL or holds
  a JSON value that is not an object.
\<close>

record auth_user =
  au_id :: uuid
  au_email :: "string option"
  au_raw_user_meta_data :: "jsonb_object option"

record profile =
  pf_id :: uuid
  pf_email :: "string option"
  pf_full_name :: "string option"
  pf_role :: user_role
  pf_created_at :: timestamp
  pf_updated_at :: timestamp

record category =
  ct_id :: uuid
  ct_name :: string
  ct_description :: "string option"
  ct_created_at :: timestamp

text \<open>
  \<open>price\<close> is \<^verbatim>\<open>DECIMAL(10,2)\<close>, held as a number of hundredths;
  \<open>quantity\<close> is a 32-bit \<^verbatim>\<open>INTEGER\<close>, held as an \<open>int\<close> whose range the
  table checks.
\<close>

record product =
  pr_id :: uuid
  pr_seller_id :: uuid
  pr_name :: string
  pr_description :: "string option"
  pr_price :: int
  pr_quantity :: int
  pr_category_id :: "uuid option"
  pr_image_url :: "string option"
  pr_is_active :: bool
  pr_created_at :: timestamp
  pr_updated_at :: timestamp

record database =
  auth_users :: "auth_user list"
  profiles :: "profile list"
  categories :: "category list"
  products :: "product list"

section \<open>The signup trigger\<close>

text \<open>The operator \<^verbatim>\<open>->>\<close>: the text of a key of a \<open>jsonb\<close> value, NULL when
  the value is NULL, the key is missing or it holds JSON null.\<close>

definition jsonb_object_field_text :: "jsonb_object option \<Rightarrow> string \<Rightarrow> string option" where
  "jsonb_object_field_text j k =
     (case j of
        None \<Rightarrow> None
      | Some obj \<Rightarrow>
          (case obj k of
             None \<Rightarrow> None
           | Some JNull \<Rightarrow> None
           | Some (JString s) \<Rightarrow> Some s
           | Some (JOther t) \<Rightarrow> Some t))"

text \<open>The cast \<^verbatim>\<open>::user_role\<close>: NULL stays NULL, a label of the enumeration
  becomes its value, any other text raises.\<close>

definition user_role_cast :: "string option \<Rightarrow> error + user_role option" where
  "user_role_cast t =
     (case t of
        None \<Rightarrow> Inr None
      | Some s \<Rightarrow>
          if s = ''buyer'' then Inr (Some Buyer)
          else if s = ''seller'' then Inr (Some Seller)
          else Inl (InvalidTextRepresentation s))"

definition COALESCE :: "'a option \<Rightarrow> 'a \<Rightarrow> 'a" where
  "COALESCE x d = (case x of None \<Rightarrow> d | Some v \<Rightarrow> v)"

text \<open>
  An insert into \<open>profiles\<close> that bypasses row-level security, as the
  \<^verbatim>\<open>SECURITY DEFINER\<close> trigger function does: the primary key and the foreign
  key to \<open>auth.users\<close> are still enforced.
\<close>

definition profiles_insert_definer :: "profile \<Rightarrow> database \<Rightarrow> error + database" where
  "profiles_insert_definer p db =
     (if pf_id p \<in> set (map pf_id (profiles db)) then Inl (UniqueViolation ''profiles'')
      else if pf_id p \<notin> set (map au_id (auth_users db)) then Inl (ForeignKeyViolation ''id'')
      else Inr (db\<lparr>profiles := profiles db @ [p]\<rparr>))"

text \<open>
  Name resolution. The migration creates the type \<open>user_role\<close> in the schema
  \<open>public\<close> and no other type. A type name written without a schema is looked
  up in \<open>pg_catalog\<close>, then in the schemas of the search path in force, in
  order; it resolves to the first schema that holds a type of that name.
\<close>

definition type_catalog :: "(string \<times> string) list" where
  "type_catalog = [(''public'', ''user_role'')]"

definition resolve_type :: "string list \<Rightarrow> string \<Rightarrow> string option" where
  "resolve_type search_path name =
     find (\<lambda>schema. (schema, name) \<in> set type_catalog) (''pg_catalog'' # search_path)"

text \<open>The function is declared with \<^verbatim>\<open>SET search_path = ''\<close>: its body runs
  with an empty search path.\<close>

definition handle_new_user_search_path :: "string list" where
  "handle_new_user_search_path = []"

text \<open>
  \<^verbatim>\<open>handle_new_user\<close>. The \<^verbatim>\<open>INSERT\<close> is analysed when it is first run, under
  the search path of the function: the table is written \<^verbatim>\<open>public.profiles\<close>,
  the type of the cast is written \<^verbatim>\<open>user_role\<close>, without a schema, and a
  type name that does not resolve raises before any value is computed. Then the
  \<^verbatim>\<open>VALUES\<close> row is evaluated (the cast may raise) and inserted;
  \<open>created_at\<close> and \<open>updated_at\<close> take their default \<^verbatim>\<open>now()\<close>. The
  function has no exception handler.
\<close>

definition handle_new_user :: "timestamp \<Rightarrow> auth_user \<Rightarrow> database \<Rightarrow> error + database" where
  "handle_new_user now new db =
     (case resolve_type handle_new_user_search_path ''user_role'' of
        None \<Rightarrow> Inl (UndefinedObject ''user_role'')
      | Some schema \<Rightarrow>
          (case user_role_cast (jsonb_object_field_text (au_raw_user_meta_data new) ''role'') of
             Inl e \<Rightarrow> Inl e
           | Inr r \<Rightarrow>
               profiles_insert_definer
                 \<lparr>pf_id = au_id new,
                  pf_email = au_email new,
                  pf_full_name =
                    Some (COALESCE (jsonb_object_field_text (au_raw_user_meta_data new) ''full_name'') ''''),
                  pf_role = COALESCE r Buyer,
                  pf_created_at = now,
                  pf_updated_at = now\<rparr> db))"

text \<open>
  Identity creation: the provider's insert into \<open>auth.users\<close>, then the trigger
  \<^verbatim>\<open>on_auth_user_created\<close> (\<^verbatim>\<open>AFTER INSERT ... FOR EACH ROW\<close>) in the same
  transaction.
\<close>

definition create_identity :: "timestamp \<Rightarrow> auth_user \<Rightarrow> database \<Rightarrow> error + database" where
  "create_identity now new db =
     (if au_id new \<in> set (map au_id (auth_users db)) then Inl (UniqueViolation ''users'')
      else handle_new_user now new (db\<lparr>auth_users := auth_users db @ [new]\<rparr>))"

text \<open>A transaction: an error rolls every change back and is reported.\<close>

definition transaction :: "(database \<Rightarrow> error + database) \<Rightarrow> database \<Rightarrow> error option \<times> database" where
  "transaction f db = (case f db of Inl e \<Rightarrow> (Some e, db) | Inr db' \<Rightarrow> (None, db'))"

definition signup :: "timestamp \<Rightarrow> auth_user \<Rightarrow> database \<Rightarrow> error option \<times> database" where
  "signup now new db = transaction (create_identity now new) db"

definition empty_database :: database where
  "empty_database = \<lparr>auth_users = [], profiles = [], categories = [], products = []\<rparr>"

section \<open>Row-level security\<close>

text \<open>
  Row-level security is enabled on the three tables. A request of the client
  runs as a session whose \<^verbatim>\<open>auth.uid()\<close> is the identity's id, or NULL for
  an anonymous session. The policies of a table are permissive: a row passes
  when some policy that applies to the command accepts it, and no row passes
  when none applies. A policy expression is evaluated in SQL's three-valued
  logic and accepts a row only when it is true.
\<close>

type_synonym session = "uuid option"

datatype command = SELECT | INSERT | UPDATE | DELETE

datatype policy_for = FOR_ALL | FOR command

record 'r policy =
  pol_name :: string
  pol_for :: policy_for
  pol_using :: "(session \<Rightarrow> 'r \<Rightarrow> bool option) option"
  pol_with_check :: "(session \<Rightarrow> 'r \<Rightarrow> bool option) option"

text \<open>SQL \<open>=\<close>: NULL when an operand is NULL.\<close>

definition sql_eq :: "'a option \<Rightarrow> 'a option \<Rightarrow> bool option" where
  "sql_eq a b = (case (a, b) of (Some x, Some y) \<Rightarrow> Some (x = y) | _ \<Rightarrow> None)"

definition profiles_policies :: "profile policy list" where
  "profiles_policies =
     [\<lparr>pol_name = ''Users can view their own profile'', pol_for = FOR SELECT,
       pol_using = Some (\<lambda>uid r. sql_eq uid (Some (pf_id r))), pol_with_check = None\<rparr>,
      \<lparr>pol_name = ''Users can update their own profile'', pol_for = FOR UPDATE,
       pol_using = Some (\<lambda>uid r. sql_eq uid (Some (pf_id r))), pol_with_check = None\<rparr>,
      \<lparr>pol_name = ''Users can insert their own profile'', pol_for = FOR INSERT,
       pol_using = None, pol_with_check = Some (\<lambda>uid r. sql_eq uid (Some (pf_id r)))\<rparr>]"

definition categories_policies :: "category policy list" where
  "categories_policies =
     [\<lparr>pol_name = ''Anyone can view categories'', pol_for = FOR SELECT,
       pol_using = Some (\<lambda>uid r. Some True), pol_with_check = None\<rparr>]"

definition products_policies :: "product policy list" where
  "products_policies =
     [\<lparr>pol_name = ''Anyone can view active products'', pol_for = FOR SELECT,
       pol_using = Some (\<lambda>uid r. Some (pr_is_active r = True)), pol_with_check = None\<rparr>,
      \<lparr>pol_name = ''Sellers can manage their own products'', pol_for = FOR_ALL,
       pol_using = Some (\<lambda>uid r. sql_eq uid (Some (pr_seller_id r))), pol_with_check = None\<rparr>]"

definition applies :: "'r policy \<Rightarrow> command \<Rightarrow> bool" where
  "applies p c = (pol_for p = FOR_ALL \<or> pol_for p = FOR c)"

text \<open>The \<^verbatim>\<open>USING\<close> expression of a policy filters existing rows.\<close>

definition passes_using :: "'r policy list \<Rightarrow> command \<Rightarrow> session \<Rightarrow> 'r \<Rightarrow> bool" where
  "passes_using ps c uid r =
     list_ex (\<lambda>p. applies p c \<and>
                (case pol_using p of None \<Rightarrow> True | Some e \<Rightarrow> e uid r = Some True)) ps"

text \<open>A new row is checked by \<^verbatim>\<open>WITH CHECK\<close>, which defaults to the
  \<^verbatim>\<open>USING\<close> expression of the policy when it is not given.\<close>

definition passes_check :: "'r policy list \<Rightarrow> command \<Rightarrow> session \<Rightarrow> 'r \<Rightarrow> bool" where
  "passes_check ps c uid r =
     list_ex (\<lambda>p. applies p c \<and>
                (case pol_with_check p of
                   Some e \<Rightarrow> e uid r = Some True
                 | None \<Rightarrow> (case pol_using p of None \<Rightarrow> True | Some e \<Rightarrow> e uid r = Some True))) ps"

text \<open>
  The four commands on a table under its policies. A \<^verbatim>\<open>WHERE\<close> clause reads
  the row, so an \<^verbatim>\<open>UPDATE\<close> or \<^verbatim>\<open>DELETE\<close> touches only rows that also pass
  the \<^verbatim>\<open>SELECT\<close> policies (with the policies above, a row that passes the
  policies of the command passes those too). Rows that do not pass are skipped
  silently; a new row that fails its check raises.
\<close>

definition rls_select :: "'r policy list \<Rightarrow> session \<Rightarrow> ('r \<Rightarrow> bool) \<Rightarrow> 'r list \<Rightarrow> 'r list" where
  "rls_select ps uid wh rows = filter (\<lambda>r. passes_using ps SELECT uid r \<and> wh r) rows"

definition rls_insert :: "'r policy list \<Rightarrow> session \<Rightarrow> 'r \<Rightarrow> 'r list \<Rightarrow> error + 'r list" where
  "rls_insert ps uid r rows =
     (if passes_check ps INSERT uid r then Inr (rows @ [r])
      else Inl (RlsViolation ''insert''))"

definition rls_target :: "'r policy list \<Rightarrow> command \<Rightarrow> session \<Rightarrow> ('r \<Rightarrow> bool) \<Rightarrow> 'r \<Rightarrow> bool" where
  "rls_target ps c uid wh r =
     (passes_using ps SELECT uid r \<and> wh r \<and> passes_using ps c uid r)"

definition rls_update ::
  "'r policy list \<Rightarrow> session \<Rightarrow> ('r \<Rightarrow> bool) \<Rightarrow> ('r \<Rightarrow> 'r) \<Rightarrow> 'r list \<Rightarrow> error + 'r list" where
  "rls_update ps uid wh upd rows =
     (if list_all (\<lambda>r. passes_check ps UPDATE uid (upd r)) (filter (rls_target ps UPDATE uid wh) rows)
      then Inr (map (\<lambda>r. if rls_target ps UPDATE uid wh r then upd r else r) rows)
      else Inl (RlsViolation ''update''))"

definition rls_delete :: "'r policy list \<Rightarrow> session \<Rightarrow> ('r \<Rightarrow> bool) \<Rightarrow> 'r list \<Rightarrow> 'r list" where
  "rls_delete ps uid wh rows = filter (\<lambda>r. \<not> rls_target ps DELETE uid wh r) rows"

subsection \<open>The tables\<close>

text \<open>
  A statement that writes a table is checked against the constraints of the
  table after the policies. The check runs over the whole new table; the rows
  the statement did not write satisfied it before.
\<close>

definition int4_ok :: "int \<Rightarrow> bool" where
  "int4_ok n = (- 2147483648 \<le> n \<and> n \<le> 2147483647)"

definition decimal_10_2_ok :: "int \<Rightarrow> bool" where
  "decimal_10_2_ok h = (- 10000000000 < h \<and> h < 10000000000)"

text \<open>The constraints of \<open>profiles\<close>: primary key \<open>id\<close>, foreign key to
  \<open>auth.users\<close>.\<close>

definition profiles_constraints :: "database \<Rightarrow> profile list \<Rightarrow> error option" where
  "profiles_constraints db rows =
     (if \<not> distinct (map pf_id rows) then Some (UniqueViolation ''profiles'')
      else if \<not> list_all (\<lambda>r. pf_id r \<in> set (map au_id (auth_users db))) rows
        then Some (ForeignKeyViolation ''id'')
      else None)"

text \<open>The constraints of \<open>products\<close>: the ranges of \<open>price\<close> and \<open>quantity\<close>, primary key
  \<open>id\<close>, foreign keys \<open>seller_id\<close> and \<open>category_id\<close>. There is no check
  that \<open>quantity\<close> is not negative.\<close>

definition products_constraints :: "database \<Rightarrow> product list \<Rightarrow> error option" where
  "products_constraints db rows =
     (if \<not> list_all (\<lambda>r. decimal_10_2_ok (pr_price r)) rows then Some (NumericValueOutOfRange ''price'')
      else if \<not> list_all (\<lambda>r. int4_ok (pr_quantity r)) rows then Some (NumericValueOutOfRange ''quantity'')
      else if \<not> distinct (map pr_id rows) then Some (UniqueViolation ''products'')
      else if \<not> list_all (\<lambda>r. pr_seller_id r \<in> set (map au_id (auth_users db))) rows
        then Some (ForeignKeyViolation ''seller_id'')
      else if \<not> list_all (\<lambda>r. case pr_category_id r of None \<Rightarrow> True
                                | Some c \<Rightarrow> c \<in> set (map ct_id (categories db))) rows
        then Some (ForeignKeyViolation ''category_id'')
      else None)"

definition select_profiles :: "session \<Rightarrow> (profile \<Rightarrow> bool) \<Rightarrow> database \<Rightarrow> profile list" where
  "select_profiles uid wh db = rls_select profiles_policies uid wh (profiles db)"

definition store_profiles :: "error + profile list \<Rightarrow> database \<Rightarrow> error + database" where
  "store_profiles res db =
     (case res of
        Inl e \<Rightarrow> Inl e
      | Inr rows \<Rightarrow>
          (case profiles_constraints db rows of
             Some e \<Rightarrow> Inl e
           | None \<Rightarrow> Inr (db\<lparr>profiles := rows\<rparr>)))"

definition insert_profiles :: "session \<Rightarrow> profile \<Rightarrow> database \<Rightarrow> error + database" where
  "insert_profiles uid r db = store_profiles (rls_insert profiles_policies uid r (profiles db)) db"

definition update_profiles ::
  "session \<Rightarrow> (profile \<Rightarrow> bool) \<Rightarrow> (profile \<Rightarrow> profile) \<Rightarrow> database \<Rightarrow> error + database" where
  "update_profiles uid wh upd db =
     store_profiles (rls_update profiles_policies uid wh upd (profiles db)) db"

definition delete_profiles :: "session \<Rightarrow> (profile \<Rightarrow> bool) \<Rightarrow> database \<Rightarrow> error + database" where
  "delete_profiles uid wh db =
     Inr (db\<lparr>profiles := rls_delete profiles_policies uid wh (profiles db)\<rparr>)"

definition select_categories :: "session \<Rightarrow> (category \<Rightarrow> bool) \<Rightarrow> database \<Rightarrow> category list" where
  "select_categories uid wh db = rls_select categories_policies uid wh (categories db)"

definition select_products :: "session \<Rightarrow> (product \<Rightarrow> bool) \<Rightarrow> database \<Rightarrow> product list" where
  "select_products uid wh db = rls_select products_policies uid wh (products db)"

definition store_products :: "error + product list \<Rightarrow> database \<Rightarrow> error + database" where
  "store_products res db =
     (case res of
        Inl e \<Rightarrow> Inl e
      | Inr rows \<Rightarrow>
          (case products_constraints db rows of
             Some e \<Rightarrow> Inl e
           | None \<Rightarrow> Inr (db\<lparr>products := rows\<rparr>)))"

definition insert_products :: "session \<Rightarrow> product \<Rightarrow> database \<Rightarrow> error + database" where
  "insert_products uid r db = store_products (rls_insert products_policies uid r (products db)) db"

definition update_products ::
  "session \<Rightarrow> (product \<Rightarrow> bool) \<Rightarrow> (product \<Rightarrow> product) \<Rightarrow> database \<Rightarrow> error + database" where
  "update_products uid wh upd db =
     store_products (rls_update products_policies uid wh upd (products db)) db"

definition delete_products :: "session \<Rightarrow> (product \<Rightarrow> bool) \<Rightarrow> database \<Rightarrow> error + database" where
  "delete_products uid wh db =
     Inr (db\<lparr>products := rls_delete products_policies uid wh (products db)\<rparr>)"

text \<open>
  The row a \<^verbatim>\<open>VALUES\<close> list without \<open>id\<close>, \<open>is_active\<close>, \<open>created_at\<close>
  and \<open>updated_at\<close> stands for: those columns take their defaults
  (\<^verbatim>\<open>gen_random_uuid()\<close>, \<^verbatim>\<open>true\<close>, \<^verbatim>\<open>now()\<close>). \<open>price\<close> and
  \<open>quantity\<close> may be given as NULL, which their \<^verbatim>\<open>NOT NULL\<close> constraints
  reject after the policy check; the policies do not read these two columns,
  so the row they are evaluated on holds 0 there.
\<close>

record product_values =
  pv_seller_id :: uuid
  pv_name :: string
  pv_description :: "string option"
  pv_price :: "int option"
  pv_quantity :: "int option"
  pv_category_id :: "uuid option"
  pv_image_url :: "string option"

definition values_row :: "uuid \<Rightarrow> timestamp \<Rightarrow> product_values \<Rightarrow> product" where
  "values_row new_id now v =
     \<lparr>pr_id = new_id,
      pr_seller_id = pv_seller_id v,
      pr_name = pv_name v,
      pr_description = pv_description v,
      pr_price = COALESCE (pv_price v) 0,
      pr_quantity = COALESCE (pv_quantity v) 0,
      pr_category_id = pv_category_id v,
      pr_image_url = pv_image_url v,
      pr_is_active = True,
      pr_created_at = now,
      pr_updated_at = now\<rparr>"

definition insert_products_values ::
  "session \<Rightarrow> uuid \<Rightarrow> timestamp \<Rightarrow> product_values \<Rightarrow> database \<Rightarrow> error + database" where
  "insert_products_values uid new_id now v db =
     (if \<not> passes_check products_policies INSERT uid (values_row new_id now v)
        then Inl (RlsViolation ''insert'')
      else if pv_price v = None then Inl (NotNullViolation ''price'')
      else if pv_quantity v = None then Inl (NotNullViolation ''quantity'')
      else insert_products uid (values_row new_id now v) db)"

section \<open>The client\<close>

datatype toast =
    ProductUnavailable
  | AddedToCart string
  | ErrorAddingToCart error
  | ProductAddedSuccessfully
  | ErrorAddingProduct error

text \<open>A statement the client sends to the database.\<close>

datatype request =
    UpdateProductQuantity uuid int  \<comment> \<open>\<^verbatim>\<open>update({quantity}).eq('id', productId)\<close>\<close>
  | InsertProduct product_values

subsection \<open>Dashboard\<close>

text \<open>\<^verbatim>\<open>fetchProducts\<close>: the active products the session may read, newest first.\<close>

definition fetchProducts :: "session \<Rightarrow> database \<Rightarrow> product list" where
  "fetchProducts user db =
     rev (sort_key pr_created_at (select_products user (\<lambda>r. pr_is_active r = True) db))"

text \<open>\<^verbatim>\<open>fetchMyProducts\<close>: nothing is fetched without a user.\<close>

definition fetchMyProducts :: "session \<Rightarrow> database \<Rightarrow> product list option" where
  "fetchMyProducts user db =
     (case user of
        None \<Rightarrow> None
      | Some uid \<Rightarrow>
          Some (rev (sort_key pr_created_at (select_products user (\<lambda>r. pr_seller_id r = uid) db))))"

text \<open>
  \<^verbatim>\<open>handleAddToCart\<close>, given the session, the component's list \<open>products\<close>
  (here \<open>cached\<close>) and the database. The result holds the toast shown, the
  statements sent, the component's list (fetched again after a success) and
  the database.
\<close>

record cart_result =
  cr_toast :: toast
  cr_requests :: "request list"
  cr_products :: "product list"
  cr_db :: database

definition handleAddToCart :: "session \<Rightarrow> product list \<Rightarrow> uuid \<Rightarrow> database \<Rightarrow> cart_result" where
  "handleAddToCart user cached productId db =
     (case find (\<lambda>p. pr_id p = productId) cached of
        None \<Rightarrow>
          \<lparr>cr_toast = ProductUnavailable, cr_requests = [], cr_products = cached, cr_db = db\<rparr>
      | Some product \<Rightarrow>
          if pr_quantity product = 0 then
            \<lparr>cr_toast = ProductUnavailable, cr_requests = [], cr_products = cached, cr_db = db\<rparr>
          else
            (case update_products user (\<lambda>r. pr_id r = productId)
                    (\<lambda>r. r\<lparr>pr_quantity := pr_quantity product - 1\<rparr>) db of
               Inl e \<Rightarrow>
                 \<lparr>cr_toast = ErrorAddingToCart e,
                  cr_requests = [UpdateProductQuantity productId (pr_quantity product - 1)],
                  cr_products = cached, cr_db = db\<rparr>
             | Inr db' \<Rightarrow>
                 \<lparr>cr_toast = AddedToCart (pr_name product),
                  cr_requests = [UpdateProductQuantity productId (pr_quantity product - 1)],
                  cr_products = fetchProducts user db', cr_db = db'\<rparr>))"

text \<open>
  The button of \<^verbatim>\<open>ProductCard\<close>: the id passed to \<^verbatim>\<open>onAddToCart\<close> by a click,
  none when the footer is not rendered or the button is disabled.
\<close>

definition ProductCard_click :: "bool \<Rightarrow> product \<Rightarrow> uuid option" where
  "ProductCard_click showAddToCart product =
     (if showAddToCart \<and> \<not> pr_quantity product = 0 then Some (pr_id product) else None)"

text \<open>
  Two purchases of the same product by two clients. Either client fetched its
  list before the other's update; the database runs the two updates one after
  the other. The result holds the two toasts and the database.
\<close>

definition two_purchases ::
  "session \<Rightarrow> session \<Rightarrow> uuid \<Rightarrow> database \<Rightarrow> toast \<times> toast \<times> database" where
  "two_purchases a b productId db =
     (let productsA = fetchProducts a db;
          productsB = fetchProducts b db;
          resA = handleAddToCart a productsA productId db;
          resB = handleAddToCart b productsB productId (cr_db resA)
      in (cr_toast resA, cr_toast resB, cr_db resB))"

subsection \<open>AddProductDialog\<close>

record js_file =
  file_name :: string
  file_type :: string
  file_size :: nat

record form_data =
  fd_name :: string
  fd_description :: string
  fd_price :: string
  fd_quantity :: string
  fd_category_id :: string

record dialog =
  dl_open :: bool
  dl_loading :: bool
  dl_imageFile :: "js_file option"
  dl_formData :: form_data

text \<open>
  What the component calls outside this repository: the clock, the storage
  service (\<open>storage_upload bucket path file\<close> is the error of the upload, if
  any, thrown or returned), the two number parsers of the language, and the
  database's id generator and clock. \<open>parseFloat\<close> gives the amount in
  hundredths that the column stores, \<open>None\<close> for \<^verbatim>\<open>NaN\<close>, which is sent as
  \<^verbatim>\<open>null\<close>; so does \<open>parseInt\<close>.
\<close>

record services =
  date_now :: nat
  storage_upload :: "string \<Rightarrow> string \<Rightarrow> js_file \<Rightarrow> error option"
  storage_getPublicUrl :: "string \<Rightarrow> string \<Rightarrow> string"
  parseFloat :: "string \<Rightarrow> int option"
  parseInt :: "string \<Rightarrow> int option"
  gen_random_uuid :: uuid
  db_now :: timestamp

text \<open>The decimal digits of a number, as a template literal renders it.\<close>

definition digit_char :: "nat \<Rightarrow> char" where
  "digit_char d = ''0123456789'' ! d"

fun string_of_nat :: "nat \<Rightarrow> string" where
  "string_of_nat n =
     (if n < 10 then [digit_char n]
      else string_of_nat (n div 10) @ [digit_char (n mod 10)])"

text \<open>\<^verbatim>\<open>file.name.split('.').pop()\<close>: what follows the last dot, the whole name
  when it has none.\<close>

definition fileExt :: "string \<Rightarrow> string" where
  "fileExt name = rev (takeWhile (\<lambda>c. c \<noteq> CHR ''.'') (rev name))"

definition fileName :: "services \<Rightarrow> session \<Rightarrow> js_file \<Rightarrow> string" where
  "fileName sv user f =
     (case user of None \<Rightarrow> ''undefined'' | Some uid \<Rightarrow> uid) @ ''/'' @
     string_of_nat (date_now sv) @ ''.'' @ fileExt (file_name f)"

text \<open>\<^verbatim>\<open>uploadImage\<close>: any error of the upload is caught and gives \<^verbatim>\<open>null\<close>.\<close>

definition uploadImage :: "services \<Rightarrow> session \<Rightarrow> js_file \<Rightarrow> string option" where
  "uploadImage sv user f =
     (case storage_upload sv ''product-images'' (fileName sv user f) f of
        Some uploadError \<Rightarrow> None
      | None \<Rightarrow> Some (storage_getPublicUrl sv ''product-images'' (fileName sv user f)))"

definition empty_form :: form_data where
  "empty_form =
     \<lparr>fd_name = [], fd_description = [], fd_price = [], fd_quantity = [], fd_category_id = []\<rparr>"

text \<open>The object \<^verbatim>\<open>handleSubmit\<close> passes to \<^verbatim>\<open>insert\<close>.\<close>

definition submit_values :: "services \<Rightarrow> uuid \<Rightarrow> form_data \<Rightarrow> string option \<Rightarrow> product_values" where
  "submit_values sv uid fd imageUrl =
     \<lparr>pv_seller_id = uid,
      pv_name = fd_name fd,
      pv_description = Some (fd_description fd),
      pv_price = parseFloat sv (fd_price fd),
      pv_quantity = parseInt sv (fd_quantity fd),
      pv_category_id = (if fd_category_id fd = [] then None else Some (fd_category_id fd)),
      pv_image_url = imageUrl\<rparr>"

text \<open>
  \<^verbatim>\<open>handleSubmit\<close>. The result holds the toast shown (none when there is no
  user), the statements sent, the state of the dialog, whether
  \<^verbatim>\<open>onProductAdded\<close> was called, and the database.
\<close>

record submit_result =
  sr_toast :: "toast option"
  sr_requests :: "request list"
  sr_dialog :: dialog
  sr_onProductAdded :: bool
  sr_db :: database

definition handleSubmit :: "services \<Rightarrow> session \<Rightarrow> dialog \<Rightarrow> database \<Rightarrow> submit_result" where
  "handleSubmit sv user st db =
     (case user of
        None \<Rightarrow>
          \<lparr>sr_toast = None, sr_requests = [], sr_dialog = st, sr_onProductAdded = False, sr_db = db\<rparr>
      | Some uid \<Rightarrow>
          (let imageUrl = (case dl_imageFile st of None \<Rightarrow> None | Some f \<Rightarrow> uploadImage sv user f);
               v = submit_values sv uid (dl_formData st) imageUrl
           in case insert_products_values user (gen_random_uuid sv) (db_now sv) v db of
                Inl e \<Rightarrow>
                  \<lparr>sr_toast = Some (ErrorAddingProduct e), sr_requests = [InsertProduct v],
                   sr_dialog = st\<lparr>dl_loading := False\<rparr>, sr_onProductAdded = False, sr_db = db\<rparr>
              | Inr db' \<Rightarrow>
                  \<lparr>sr_toast = Some ProductAddedSuccessfully, sr_requests = [InsertProduct v],
                   sr_dialog = \<lparr>dl_open = False, dl_loading = False, dl_imageFile = None,
                                dl_formData = empty_form\<rparr>,
                   sr_onProductAdded = True, sr_db = db'\<rparr>))"

section \<open>Sample data\<close>

definition user_A :: auth_user where
  "user_A =
     \<lparr>au_id = ''u-a'', au_email = Some ''a@example.org'',
      au_raw_user_meta_data =
        Some (map_of [(''full_name'', JString ''A''), (''role'', JString ''seller'')])\<rparr>"

definition user_plain :: auth_user where
  "user_plain = \<lparr>au_id = ''u-b'', au_email = Some ''b@example.org'', au_raw_user_meta_data = None\<rparr>"

definition user_admin :: auth_user where
  "user_admin =
     \<lparr>au_id = ''u-c'', au_email = Some ''c@example.org'',
      au_raw_user_meta_data = Some (map_of [(''role'', JString ''admin'')])\<rparr>"

definition seller_1 :: auth_user where
  "seller_1 = \<lparr>au_id = ''s1'', au_email = Some ''s1@example.org'', au_raw_user_meta_data = None\<rparr>"

definition buyer_1 :: auth_user where
  "buyer_1 = \<lparr>au_id = ''b1'', au_email = Some ''b1@example.org'', au_raw_user_meta_data = None\<rparr>"

definition buyer_2 :: auth_user where
  "buyer_2 = \<lparr>au_id = ''b2'', au_email = Some ''b2@example.org'', au_raw_user_meta_data = None\<rparr>"

definition profile_s1 :: profile where
  "profile_s1 =
     \<lparr>pf_id = ''s1'', pf_email = Some ''s1@example.org'', pf_full_name = Some '''',
      pf_role = Seller, pf_created_at = 1, pf_updated_at = 1\<rparr>"

definition profile_b1 :: profile where
  "profile_b1 =
     \<lparr>pf_id = ''b1'', pf_email = Some ''b1@example.org'', pf_full_name = Some '''',
      pf_role = Buyer, pf_created_at = 2, pf_updated_at = 2\<rparr>"

definition lamp :: product where
  "lamp =
     \<lparr>pr_id = ''p1'', pr_seller_id = ''s1'', pr_name = ''Lamp'', pr_description = None,
      pr_price = 1999, pr_quantity = 1, pr_category_id = None, pr_image_url = None,
      pr_is_active = True, pr_created_at = 3, pr_updated_at = 3\<rparr>"

definition chair :: product where
  "chair =
     \<lparr>pr_id = ''p2'', pr_seller_id = ''s1'', pr_name = ''Chair'', pr_description = None,
      pr_price = 4500, pr_quantity = 2, pr_category_id = None, pr_image_url = None,
      pr_is_active = False, pr_created_at = 4, pr_updated_at = 4\<rparr>"

definition mug :: product where
  "mug =
     \<lparr>pr_id = ''p3'', pr_seller_id = ''b1'', pr_name = ''Mug'', pr_description = None,
      pr_price = 700, pr_quantity = 1, pr_category_id = None, pr_image_url = None,
      pr_is_active = True, pr_created_at = 5, pr_updated_at = 5\<rparr>"

definition shop :: database where
  "shop =
     \<lparr>auth_users = [seller_1, buyer_1, buyer_2],
      profiles = [profile_s1, profile_b1],
      categories = [],
      products = [lamp, chair, mug]\<rparr>"

text \<open>A storage service that is down, and a form filled in without a category.\<close>

definition services_down :: services where
  "services_down =
     \<lparr>date_now = 1700000000000,
      storage_upload = (\<lambda>bucket path f. Some (ServiceError ''Failed to fetch'')),
      storage_getPublicUrl = (\<lambda>bucket path. ''https://storage.example/'' @ bucket @ ''/'' @ path),
      parseFloat = (\<lambda>s. if s = ''19.99'' then Some 1999 else None),
      parseInt = (\<lambda>s. if s = ''3'' then Some 3 else None),
      gen_random_uuid = ''p9'',
      db_now = 9\<rparr>"

definition photo :: js_file where
  "photo = \<lparr>file_name = ''desk.lamp.png'', file_type = ''image/png'', file_size = 20480\<rparr>"

definition lamp_form :: dialog where
  "lamp_form =
     \<lparr>dl_open = True, dl_loading = False, dl_imageFile = Some photo,
      dl_formData =
        \<lparr>fd_name = ''Desk lamp'', fd_description = ''Small'', fd_price = ''19.99'',
         fd_quantity = ''3'', fd_category_id = ''''\<rparr>\<rparr>"

definition desk_lamp :: product where
  "desk_lamp =
     \<lparr>pr_id = ''p9'', pr_seller_id = ''s1'', pr_name = ''Desk lamp'', pr_description = Some ''Small'',
      pr_price = 1999, pr_quantity = 3, pr_category_id = None, pr_image_url = None,
      pr_is_active = True, pr_created_at = 9, pr_updated_at = 9\<rparr>"

text \<open>A form filled in with a negative quantity, which the input accepts, and
  the product it stores.\<close>

definition services_up :: services where
  "services_up =
     \<lparr>date_now = 1700000000001,
      storage_upload = (\<lambda>bucket path f. None),
      storage_getPublicUrl = (\<lambda>bucket path. ''https://storage.example/'' @ bucket @ ''/'' @ path),
      parseFloat = (\<lambda>s. if s = ''12.00'' then Some 1200 else None),
      parseInt = (\<lambda>s. if s = ''-1'' then Some (- 1) else None),
      gen_random_uuid = ''p4'',
      db_now = 10\<rparr>"

definition vase_form :: dialog where
  "vase_form =
     \<lparr>dl_open = True, dl_loading = False, dl_imageFile = None,
      dl_formData =
        \<lparr>fd_name = ''Vase'', fd_description = ''Blue'', fd_price = ''12.00'',
         fd_quantity = ''-1'', fd_category_id = ''''\<rparr>\<rparr>"

definition vase :: product where
  "vase =
     \<lparr>pr_id = ''p4'', pr_seller_id = ''b1'', pr_name = ''Vase'', pr_description = Some ''Blue'',
      pr_price = 1200, pr_quantity = - 1, pr_category_id = None, pr_image_url = None,
      pr_is_active = True, pr_created_at = 10, pr_updated_at = 10\<rparr>"

definition shop_with_vase :: database where
  "shop_with_vase =
     \<lparr>auth_users = [seller_1, buyer_1, buyer_2],
      profiles = [profile_s1, profile_b1],
      categories = [],
      products = [lamp, chair, mug, vase]\<rparr>"

section \<open>Properties of the signup trigger\<close>

text \<open>Under the empty search path of the function the type of the cast does
  not resolve; under a path that names \<open>public\<close> it would.\<close>

lemma resolve_type_user_role:
  "resolve_type handle_new_user_search_path ''user_role'' = None"
  "resolve_type [''public''] ''user_role'' = Some ''public''"
  by (simp_all add: resolve_type_def handle_new_user_search_path_def type_catalog_def)

lemma handle_new_user_raises:
  "handle_new_user now new db = Inl (UndefinedObject ''user_role'')"
  by (simp add: handle_new_user_def resolve_type_user_role)

lemma signup_aborts:
  "signup now new db =
     (Some (if au_id new \<in> set (map au_id (auth_users db)) then UniqueViolation ''users''
            else UndefinedObject ''user_role''), db)"
  by (simp add: signup_def transaction_def create_identity_def handle_new_user_raises)

text \<open>
  C1, evaluated. The identity of the spec's example, with metadata
  \<open>{full_name: "A", role: "seller"}\<close>, and an identity without metadata are
  created in an empty database: the trigger raises, the signup reports the
  error and the database stays empty, so no profile row has the id.
\<close>

theorem identity_creation_raises_undefined_type:
  "signup 5 user_A empty_database = (Some (UndefinedObject ''user_role''), empty_database)
   \<and> filter (\<lambda>q. pf_id q = au_id user_A) (profiles (snd (signup 5 user_A empty_database))) = []
   \<and> signup 5 user_plain empty_database = (Some (UndefinedObject ''user_role''), empty_database)
   \<and> filter (\<lambda>q. pf_id q = au_id user_plain) (profiles (snd (signup 5 user_plain empty_database))) = []"
  by (simp add: signup_aborts empty_database_def)

text \<open>
  C5. When the metadata gives a role that is not a label of the enumeration,
  the trigger raises at the cast, and the signup reports an error and leaves
  the database as it was: no profile row, no identity row.
\<close>

theorem invalid_role_aborts_signup:
  assumes "jsonb_object_field_text (au_raw_user_meta_data new) ''role'' = Some s"
    and "s \<noteq> ''buyer''" and "s \<noteq> ''seller''"
  shows "handle_new_user now new db = Inl (UndefinedObject ''user_role'')
       \<and> signup now new db =
           (Some (if au_id new \<in> set (map au_id (auth_users db)) then UniqueViolation ''users''
                  else UndefinedObject ''user_role''), db)
       \<and> profiles (snd (signup now new db)) = profiles db
       \<and> auth_users (snd (signup now new db)) = auth_users db"
  by (simp add: handle_new_user_raises signup_aborts)

theorem invalid_role_aborts_signup_witness:
  "jsonb_object_field_text (au_raw_user_meta_data user_admin) ''role'' = Some ''admin''
   \<and> handle_new_user 5 user_admin empty_database = Inl (UndefinedObject ''user_role'')
   \<and> signup 5 user_admin empty_database = (Some (UndefinedObject ''user_role''), empty_database)"
proof -
  have h: "jsonb_object_field_text (au_raw_user_meta_data user_admin) ''role'' = Some ''admin''"
    by (simp add: jsonb_object_field_text_def user_admin_def)
  have n: "''admin'' \<noteq> ''buyer''" "''admin'' \<noteq> ''seller''" by simp_all
  show ?thesis
    using invalid_role_aborts_signup [OF h n, of 5 empty_database] h
    by (simp add: empty_database_def)
qed

text \<open>
  C6, as stated, fails: a role that is not a label of the enumeration does
  not give a profile with role buyer. The cast of \<open>admin\<close> raises, and the
  signup of \<open>user_admin\<close> leaves no profile.
\<close>

theorem invalid_role_gives_no_buyer_profile:
  "user_role_cast (jsonb_object_field_text (au_raw_user_meta_data user_admin) ''role'') =
     Inl (InvalidTextRepresentation ''admin'')
   \<and> fst (signup 5 user_admin empty_database) = Some (UndefinedObject ''user_role'')
   \<and> profiles (snd (signup 5 user_admin empty_database)) = []"
  by (simp add: signup_aborts user_role_cast_def jsonb_object_field_text_def user_admin_def
      empty_database_def)

text \<open>
  C6, amended. The trigger casts the optional role of the metadata to the
  enumerated type. When the text of the role is not NULL and is not a label of
  the enumeration, the cast of that text raises instead of giving buyer, the
  trigger raises and inserts no profile.
\<close>

theorem invalid_role_is_not_defaulted:
  assumes "jsonb_object_field_text (au_raw_user_meta_data new) ''role'' = Some s"
    and "s \<noteq> ''buyer''" and "s \<noteq> ''seller''"
  shows "user_role_cast (jsonb_object_field_text (au_raw_user_meta_data new) ''role'') =
           Inl (InvalidTextRepresentation s)
       \<and> (\<exists>e. handle_new_user now new db = Inl e)
       \<and> filter (\<lambda>q. pf_id q = au_id new) (profiles (snd (signup now new db))) =
           filter (\<lambda>q. pf_id q = au_id new) (profiles db)"
  using assms by (simp add: user_role_cast_def handle_new_user_raises signup_aborts)

theorem invalid_role_is_not_defaulted_witness:
  "jsonb_object_field_text (au_raw_user_meta_data user_admin) ''role'' = Some ''admin''
   \<and> user_role_cast (Some ''admin'') = Inl (InvalidTextRepresentation ''admin'')
   \<and> (\<exists>e. handle_new_user 5 user_admin (empty_database\<lparr>auth_users := [user_admin]\<rparr>) = Inl e)
   \<and> filter (\<lambda>q. pf_id q = au_id user_admin)
        (profiles (snd (signup 5 user_admin empty_database))) = []"
proof -
  have h: "jsonb_object_field_text (au_raw_user_meta_data user_admin) ''role'' = Some ''admin''"
    by (simp add: jsonb_object_field_text_def user_admin_def)
  have n: "''admin'' \<noteq> ''buyer''" "''admin'' \<noteq> ''seller''" by simp_all
  show ?thesis
    using invalid_role_is_not_defaulted [OF h n, of 5 "empty_database\<lparr>auth_users := [user_admin]\<rparr>"]
      invalid_role_is_not_defaulted [OF h n, of 5 empty_database] h
    by (simp add: empty_database_def)
qed

section \<open>Properties of the policies\<close>

lemma sql_eq_Some_True [simp]: "(sql_eq uid (Some x) = Some True) = (uid = Some x)"
  by (cases uid) (auto simp: sql_eq_def)

lemma products_using_SELECT:
  "passes_using products_policies SELECT uid r = (pr_is_active r \<or> uid = Some (pr_seller_id r))"
  by (simp add: passes_using_def products_policies_def applies_def)

lemma products_using_UPDATE:
  "passes_using products_policies UPDATE uid r = (uid = Some (pr_seller_id r))"
  by (simp add: passes_using_def products_policies_def applies_def)

lemma products_using_DELETE:
  "passes_using products_policies DELETE uid r = (uid = Some (pr_seller_id r))"
  by (simp add: passes_using_def products_policies_def applies_def)

lemma products_check_INSERT:
  "passes_check products_policies INSERT uid r = (uid = Some (pr_seller_id r))"
  by (simp add: passes_check_def products_policies_def applies_def)

lemma products_check_UPDATE:
  "passes_check products_policies UPDATE uid r = (uid = Some (pr_seller_id r))"
  by (simp add: passes_check_def products_policies_def applies_def)

lemma products_target:
  "rls_target products_policies UPDATE uid wh r = (wh r \<and> uid = Some (pr_seller_id r))"
  "rls_target products_policies DELETE uid wh r = (wh r \<and> uid = Some (pr_seller_id r))"
  by (auto simp: rls_target_def products_using_SELECT products_using_UPDATE products_using_DELETE)

lemma profiles_using_SELECT:
  "passes_using profiles_policies SELECT uid r = (uid = Some (pf_id r))"
  by (simp add: passes_using_def profiles_policies_def applies_def)

lemma profiles_using_UPDATE:
  "passes_using profiles_policies UPDATE uid r = (uid = Some (pf_id r))"
  by (simp add: passes_using_def profiles_policies_def applies_def)

lemma profiles_check_INSERT:
  "passes_check profiles_policies INSERT uid r = (uid = Some (pf_id r))"
  by (simp add: passes_check_def profiles_policies_def applies_def)

lemma profiles_check_UPDATE:
  "passes_check profiles_policies UPDATE uid r = (uid = Some (pf_id r))"
  by (simp add: passes_check_def profiles_policies_def applies_def)

lemma profiles_target:
  "rls_target profiles_policies UPDATE uid wh r = (wh r \<and> uid = Some (pf_id r))"
  by (auto simp: rls_target_def profiles_using_SELECT profiles_using_UPDATE)

lemma update_products_Inr:
  assumes "update_products uid wh upd db = Inr db'"
  shows "products db' =
           map (\<lambda>r. if wh r \<and> uid = Some (pr_seller_id r) then upd r else r) (products db)"
  using assms
  by (auto simp: update_products_def store_products_def rls_update_def products_target
      split: sum.splits option.splits if_splits)

lemma update_products_db:
  assumes "update_products uid wh upd db = Inr db'"
  shows "db' = db\<lparr>products := products db'\<rparr>"
  using assms
  by (auto simp: update_products_def store_products_def split: sum.splits option.splits)

lemma update_profiles_Inr:
  assumes "update_profiles uid wh upd db = Inr db'"
  shows "profiles db' =
           map (\<lambda>r. if wh r \<and> uid = Some (pf_id r) then upd r else r) (profiles db)"
  using assms
  by (auto simp: update_profiles_def store_profiles_def rls_update_def profiles_target
      split: sum.splits option.splits if_splits)

lemma insert_products_Inr:
  assumes "insert_products uid r db = Inr db'"
  shows "uid = Some (pr_seller_id r) \<and> db' = db\<lparr>products := products db @ [r]\<rparr>"
  using assms
  by (auto simp: insert_products_def store_products_def rls_insert_def products_check_INSERT
      split: sum.splits option.splits if_splits)

text \<open>
  C3. A select returns an active product to every session, anonymous or not,
  and an inactive product only to the session of its seller.
\<close>

theorem product_select_visibility:
  assumes "r \<in> set (products db)" and "wh r"
  shows "(pr_is_active r \<longrightarrow> r \<in> set (select_products uid wh db))
       \<and> (\<not> pr_is_active r \<longrightarrow>
            (r \<in> set (select_products uid wh db)) = (uid = Some (pr_seller_id r)))"
  using assms by (auto simp: select_products_def rls_select_def products_using_SELECT)

theorem product_select_visibility_witness:
  "lamp \<in> set (products shop) \<and> chair \<in> set (products shop)
   \<and> lamp \<in> set (select_products None (\<lambda>r. True) shop)
   \<and> chair \<notin> set (select_products (Some ''b1'') (\<lambda>r. True) shop)
   \<and> chair \<in> set (select_products (Some ''s1'') (\<lambda>r. True) shop)"
proof -
  have m: "lamp \<in> set (products shop)" "chair \<in> set (products shop)"
    by (simp_all add: shop_def)
  have a: "pr_is_active lamp" "\<not> pr_is_active chair" "pr_seller_id chair = ''s1''"
    by (simp_all add: lamp_def chair_def)
  show ?thesis
    using product_select_visibility [OF m(1), of "\<lambda>r. True" None]
      product_select_visibility [OF m(2), of "\<lambda>r. True" "Some ''b1''"]
      product_select_visibility [OF m(2), of "\<lambda>r. True" "Some ''s1''"] m a
    by simp
qed

text \<open>
  C4. A select returns a profile row only to the session of the identity
  whose id it holds, an insert of a profile row succeeds only for that
  session, and an update changes only rows of the session's own identity.
\<close>

theorem profile_owner_only:
  "(r \<in> set (select_profiles uid wh db)) = (r \<in> set (profiles db) \<and> wh r \<and> uid = Some (pf_id r))
   \<and> (insert_profiles uid r db = Inr db1 \<longrightarrow> uid = Some (pf_id r))
   \<and> (update_profiles uid wh upd db = Inr db2 \<longrightarrow>
        length (profiles db2) = length (profiles db)
        \<and> (\<forall>i<length (profiles db).
              profiles db2 ! i \<noteq> profiles db ! i \<longrightarrow> uid = Some (pf_id (profiles db ! i))))"
proof (intro conjI impI)
  show "(r \<in> set (select_profiles uid wh db)) = (r \<in> set (profiles db) \<and> wh r \<and> uid = Some (pf_id r))"
    by (auto simp: select_profiles_def rls_select_def profiles_using_SELECT)
next
  assume "insert_profiles uid r db = Inr db1"
  then show "uid = Some (pf_id r)"
    by (auto simp: insert_profiles_def store_profiles_def rls_insert_def profiles_check_INSERT
        split: sum.splits option.splits if_splits)
next
  assume u: "update_profiles uid wh upd db = Inr db2"
  show "length (profiles db2) = length (profiles db)"
    by (simp add: update_profiles_Inr [OF u])
  show "\<forall>i<length (profiles db).
          profiles db2 ! i \<noteq> profiles db ! i \<longrightarrow> uid = Some (pf_id (profiles db ! i))"
    by (auto simp: update_profiles_Inr [OF u])
qed

theorem profile_owner_only_witness:
  "profile_b1 \<notin> set (select_profiles (Some ''s1'') (\<lambda>r. True) shop)
   \<and> profile_b1 \<in> set (select_profiles (Some ''b1'') (\<lambda>r. True) shop)
   \<and> insert_profiles (Some ''s1'') profile_b1 shop = Inl (RlsViolation ''insert'')
   \<and> update_profiles (Some ''b1'') (\<lambda>r. True) (\<lambda>r. r\<lparr>pf_role := Seller\<rparr>) shop =
       Inr (shop\<lparr>profiles := [profile_s1, profile_b1\<lparr>pf_role := Seller\<rparr>]\<rparr>)
   \<and> length [profile_s1, profile_b1\<lparr>pf_role := Seller\<rparr>] = length (profiles shop)"
proof -
  have u: "update_profiles (Some ''b1'') (\<lambda>r. True) (\<lambda>r. r\<lparr>pf_role := Seller\<rparr>) shop =
       Inr (shop\<lparr>profiles := [profile_s1, profile_b1\<lparr>pf_role := Seller\<rparr>]\<rparr>)"
    by (simp add: update_profiles_def store_profiles_def rls_update_def profiles_target
        profiles_constraints_def profiles_check_UPDATE shop_def profile_s1_def profile_b1_def seller_1_def buyer_1_def buyer_2_def)
  have i: "insert_profiles (Some ''s1'') profile_b1 shop = Inl (RlsViolation ''insert'')"
    by (simp add: insert_profiles_def store_profiles_def rls_insert_def profiles_check_INSERT
        profile_b1_def)
  have m: "profile_b1 \<in> set (profiles shop)" "pf_id profile_b1 = ''b1''"
    by (simp_all add: shop_def profile_b1_def)
  show ?thesis
    using profile_owner_only [of profile_b1 "Some ''s1''" "\<lambda>r. True" shop]
      profile_owner_only [of profile_b1 "Some ''b1''" "\<lambda>r. True" shop _
        "\<lambda>r. r\<lparr>pf_role := Seller\<rparr>" "shop\<lparr>profiles := [profile_s1, profile_b1\<lparr>pf_role := Seller\<rparr>]\<rparr>"]
      u i m
    by simp
qed

section \<open>Properties of product mutations and of the cart\<close>

lemma map_if_same: "(\<And>x. x \<in> set xs \<Longrightarrow> \<not> P x) \<Longrightarrow> map (\<lambda>x. if P x then f x else x) xs = xs"
  by (induction xs) auto

lemma update_products_no_target:
  assumes "update_products uid wh upd db = Inr db'"
    and "\<forall>r\<in>set (products db). wh r \<longrightarrow> uid \<noteq> Some (pr_seller_id r)"
  shows "db' = db"
proof -
  have "products db' = products db"
    using assms(2) by (simp add: update_products_Inr [OF assms(1)] map_if_same)
  with update_products_db [OF assms(1)] show ?thesis by simp
qed

text \<open>
  C2. An insert of a product row succeeds only for the session of its seller;
  an update changes, and a delete removes, only rows whose seller is the
  session's identity; the update that add-to-cart sends for a product of
  another seller leaves the database as it was.
\<close>

theorem product_mutation_owner_only:
  "(insert_products uid r db = Inr db1 \<longrightarrow> uid = Some (pr_seller_id r))
   \<and> (update_products uid wh upd db = Inr db2 \<longrightarrow>
        length (products db2) = length (products db)
        \<and> (\<forall>i<length (products db).
              products db2 ! i \<noteq> products db ! i \<longrightarrow> uid = Some (pr_seller_id (products db ! i))))
   \<and> (delete_products uid wh db = Inr db3 \<longrightarrow>
        filter (\<lambda>r. uid \<noteq> Some (pr_seller_id r)) (products db3) =
        filter (\<lambda>r. uid \<noteq> Some (pr_seller_id r)) (products db))
   \<and> ((\<forall>r\<in>set (products db). pr_id r = productId \<longrightarrow> uid \<noteq> Some (pr_seller_id r)) \<longrightarrow>
        cr_db (handleAddToCart uid cached productId db) = db)"
proof (intro conjI impI)
  assume "insert_products uid r db = Inr db1"
  then show "uid = Some (pr_seller_id r)"
    by (simp add: insert_products_Inr)
next
  assume u: "update_products uid wh upd db = Inr db2"
  show "length (products db2) = length (products db)"
    by (simp add: update_products_Inr [OF u])
  show "\<forall>i<length (products db).
          products db2 ! i \<noteq> products db ! i \<longrightarrow> uid = Some (pr_seller_id (products db ! i))"
    by (auto simp: update_products_Inr [OF u])
next
  assume "delete_products uid wh db = Inr db3"
  then have "products db3 = filter (\<lambda>r. \<not> (wh r \<and> uid = Some (pr_seller_id r))) (products db)"
    by (auto simp: delete_products_def rls_delete_def products_target)
  then show "filter (\<lambda>r. uid \<noteq> Some (pr_seller_id r)) (products db3) =
             filter (\<lambda>r. uid \<noteq> Some (pr_seller_id r)) (products db)"
    by (auto intro: filter_cong)
next
  assume n: "\<forall>r\<in>set (products db). pr_id r = productId \<longrightarrow> uid \<noteq> Some (pr_seller_id r)"
  show "cr_db (handleAddToCart uid cached productId db) = db"
    using n
    by (auto simp: handleAddToCart_def split: option.splits sum.splits
        dest: update_products_no_target)
qed

lemmas sample_defs =
  shop_def lamp_def chair_def mug_def seller_1_def buyer_1_def buyer_2_def
  profile_s1_def profile_b1_def

lemmas products_eval =
  update_products_def delete_products_def insert_products_def store_products_def
  rls_update_def rls_delete_def rls_insert_def products_target products_check_UPDATE
  products_check_INSERT products_constraints_def int4_ok_def decimal_10_2_ok_def

theorem product_mutation_owner_only_witness:
  "insert_products (Some ''s1'') (lamp\<lparr>pr_id := ''p9''\<rparr>) shop =
     Inr (shop\<lparr>products := [lamp, chair, mug, lamp\<lparr>pr_id := ''p9''\<rparr>]\<rparr>)
   \<and> insert_products (Some ''b2'') (lamp\<lparr>pr_id := ''p9''\<rparr>) shop = Inl (RlsViolation ''insert'')
   \<and> update_products (Some ''b1'') (\<lambda>r. True) (\<lambda>r. r\<lparr>pr_quantity := 7\<rparr>) shop =
       Inr (shop\<lparr>products := [lamp, chair, mug\<lparr>pr_quantity := 7\<rparr>]\<rparr>)
   \<and> delete_products (Some ''b1'') (\<lambda>r. True) shop = Inr (shop\<lparr>products := [lamp, chair]\<rparr>)
   \<and> cr_db (handleAddToCart (Some ''b2'') [mug, lamp] ''p1'' shop) = shop
   \<and> cr_toast (handleAddToCart (Some ''b2'') [mug, lamp] ''p1'' shop) = AddedToCart ''Lamp''"
proof -
  have i: "insert_products (Some ''s1'') (lamp\<lparr>pr_id := ''p9''\<rparr>) shop =
     Inr (shop\<lparr>products := [lamp, chair, mug, lamp\<lparr>pr_id := ''p9''\<rparr>]\<rparr>)"
    by (simp add: products_eval sample_defs)
  have j: "insert_products (Some ''b2'') (lamp\<lparr>pr_id := ''p9''\<rparr>) shop = Inl (RlsViolation ''insert'')"
    by (simp add: products_eval sample_defs)
  have u: "update_products (Some ''b1'') (\<lambda>r. True) (\<lambda>r. r\<lparr>pr_quantity := 7\<rparr>) shop =
       Inr (shop\<lparr>products := [lamp, chair, mug\<lparr>pr_quantity := 7\<rparr>]\<rparr>)"
    by (simp add: products_eval sample_defs)
  have d: "delete_products (Some ''b1'') (\<lambda>r. True) shop = Inr (shop\<lparr>products := [lamp, chair]\<rparr>)"
    by (simp add: products_eval sample_defs)
  have n: "\<forall>r\<in>set (products shop). pr_id r = ''p1'' \<longrightarrow> Some ''b2'' \<noteq> Some (pr_seller_id r)"
    by (simp add: sample_defs)
  have t: "cr_toast (handleAddToCart (Some ''b2'') [mug, lamp] ''p1'' shop) = AddedToCart ''Lamp''"
    by (simp add: handleAddToCart_def products_eval sample_defs)
  show ?thesis
    using product_mutation_owner_only [of "Some ''s1''" "lamp\<lparr>pr_id := ''p9''\<rparr>" shop
        "shop\<lparr>products := [lamp, chair, mug, lamp\<lparr>pr_id := ''p9''\<rparr>]\<rparr>"]
      product_mutation_owner_only [of "Some ''b1''" _ shop _ "\<lambda>r. True" "\<lambda>r. r\<lparr>pr_quantity := 7\<rparr>"
        "shop\<lparr>products := [lamp, chair, mug\<lparr>pr_quantity := 7\<rparr>]\<rparr>"
        "shop\<lparr>products := [lamp, chair]\<rparr>"]
      product_mutation_owner_only [of "Some ''b2''" _ shop _ _ _ _ _ "''p1''" "[mug, lamp]"]
      i j u d n t
    by simp
qed

lemma handleAddToCart_unavailable:
  assumes "find (\<lambda>p. pr_id p = productId) cached = None
           \<or> (\<exists>p. find (\<lambda>p. pr_id p = productId) cached = Some p \<and> pr_quantity p = 0)"
  shows "handleAddToCart user cached productId db =
           \<lparr>cr_toast = ProductUnavailable, cr_requests = [], cr_products = cached, cr_db = db\<rparr>"
  using assms by (auto simp: handleAddToCart_def)

lemma handleAddToCart_in_stock:
  assumes "find (\<lambda>p. pr_id p = productId) cached = Some p" and "pr_quantity p \<noteq> 0"
  shows "cr_requests (handleAddToCart user cached productId db) =
           [UpdateProductQuantity productId (pr_quantity p - 1)]
       \<and> (cr_db (handleAddToCart user cached productId db) = db
          \<or> update_products user (\<lambda>r. pr_id r = productId)
               (\<lambda>r. r\<lparr>pr_quantity := pr_quantity p - 1\<rparr>) db =
             Inr (cr_db (handleAddToCart user cached productId db)))"
  using assms by (auto simp: handleAddToCart_def split: sum.splits)

text \<open>
  One add-to-cart call, by the quantity in the component's list: when the
  product is not in the list, or is there with quantity 0, no update is sent
  and the database is unchanged; when it is there with a quantity of at least
  1, the update sent writes that quantity minus 1, and every product row
  afterwards is as before or as before with that quantity.
\<close>

lemma handleAddToCart_by_cached_quantity:
  "((find (\<lambda>p. pr_id p = productId) cached = None
      \<or> (\<exists>p. find (\<lambda>p. pr_id p = productId) cached = Some p \<and> pr_quantity p = 0)) \<longrightarrow>
       cr_requests (handleAddToCart user cached productId db) = []
       \<and> cr_db (handleAddToCart user cached productId db) = db)
   \<and> (\<forall>p. find (\<lambda>p. pr_id p = productId) cached = Some p \<longrightarrow> 1 \<le> pr_quantity p \<longrightarrow>
         cr_requests (handleAddToCart user cached productId db) =
           [UpdateProductQuantity productId (pr_quantity p - 1)]
         \<and> 0 \<le> pr_quantity p - 1
         \<and> length (products (cr_db (handleAddToCart user cached productId db))) = length (products db)
         \<and> (\<forall>i<length (products db).
               products (cr_db (handleAddToCart user cached productId db)) ! i = products db ! i
               \<or> products (cr_db (handleAddToCart user cached productId db)) ! i =
                   (products db ! i)\<lparr>pr_quantity := pr_quantity p - 1\<rparr>))"
proof -
  have unavailable:
    "cr_requests (handleAddToCart user cached productId db) = []
     \<and> cr_db (handleAddToCart user cached productId db) = db"
    if "find (\<lambda>p. pr_id p = productId) cached = None
        \<or> (\<exists>p. find (\<lambda>p. pr_id p = productId) cached = Some p \<and> pr_quantity p = 0)"
    using handleAddToCart_unavailable [OF that, of user db] by simp
  have in_stock:
    "cr_requests (handleAddToCart user cached productId db) =
       [UpdateProductQuantity productId (pr_quantity p - 1)]
     \<and> 0 \<le> pr_quantity p - 1
     \<and> length (products (cr_db (handleAddToCart user cached productId db))) = length (products db)
     \<and> (\<forall>i<length (products db).
           products (cr_db (handleAddToCart user cached productId db)) ! i = products db ! i
           \<or> products (cr_db (handleAddToCart user cached productId db)) ! i =
               (products db ! i)\<lparr>pr_quantity := pr_quantity p - 1\<rparr>)"
    if f: "find (\<lambda>p. pr_id p = productId) cached = Some p" and q: "1 \<le> pr_quantity p" for p
  proof -
    from q have nz: "pr_quantity p \<noteq> 0" by simp
    note s = handleAddToCart_in_stock [OF f nz, of user db]
    from s have "cr_db (handleAddToCart user cached productId db) = db
          \<or> update_products user (\<lambda>r. pr_id r = productId)
               (\<lambda>r. r\<lparr>pr_quantity := pr_quantity p - 1\<rparr>) db =
             Inr (cr_db (handleAddToCart user cached productId db))"
      by simp
    then have m: "products (cr_db (handleAddToCart user cached productId db)) = products db
          \<or> products (cr_db (handleAddToCart user cached productId db)) =
             map (\<lambda>r. if pr_id r = productId \<and> user = Some (pr_seller_id r)
                       then r\<lparr>pr_quantity := pr_quantity p - 1\<rparr> else r) (products db)"
      by (auto dest: update_products_Inr)
    have l: "length (products (cr_db (handleAddToCart user cached productId db))) = length (products db)"
      using m by auto
    have n: "\<forall>i<length (products db).
               products (cr_db (handleAddToCart user cached productId db)) ! i = products db ! i
               \<or> products (cr_db (handleAddToCart user cached productId db)) ! i =
                   (products db ! i)\<lparr>pr_quantity := pr_quantity p - 1\<rparr>"
      using m by auto
    show ?thesis using s q l n by simp
  qed
  show ?thesis using unavailable in_stock by blast
qed

lemma ProductCard_click_in_stock:
  "ProductCard_click showAddToCart product = Some i \<Longrightarrow>
     showAddToCart \<and> i = pr_id product \<and> pr_quantity product \<noteq> 0"
  by (auto simp: ProductCard_click_def split: if_splits)

lemma fetchProducts_shop:
  "fetchProducts (Some ''b1'') shop = [mug, lamp]"
  "fetchProducts (Some ''b2'') shop = [mug, lamp]"
  by (simp_all add: fetchProducts_def select_products_def rls_select_def products_using_SELECT
      sample_defs)

text \<open>
  C9, evaluated. The product \<open>lamp\<close> has quantity 1. Two buyers fetch the
  list and each adds the lamp to the cart: both calls end with the toast of
  success. So do two sessions of the identity that owns \<open>mug\<close> (quantity 1),
  whose updates do reach the row: both succeed and the quantity ends at 0.
\<close>

theorem two_purchases_of_last_unit_both_succeed:
  "pr_quantity lamp = 1 \<and> pr_quantity mug = 1
   \<and> two_purchases (Some ''b1'') (Some ''b2'') ''p1'' shop =
       (AddedToCart ''Lamp'', AddedToCart ''Lamp'', shop)
   \<and> two_purchases (Some ''b1'') (Some ''b1'') ''p3'' shop =
       (AddedToCart ''Mug'', AddedToCart ''Mug'',
        shop\<lparr>products := [lamp, chair, mug\<lparr>pr_quantity := 0\<rparr>]\<rparr>)"
proof -
  have a: "handleAddToCart (Some ''b1'') [mug, lamp] ''p1'' shop =
      \<lparr>cr_toast = AddedToCart ''Lamp'', cr_requests = [UpdateProductQuantity ''p1'' 0],
       cr_products = [mug, lamp], cr_db = shop\<rparr>"
    by (simp add: handleAddToCart_def products_eval fetchProducts_def select_products_def
        rls_select_def products_using_SELECT sample_defs)
  have b: "handleAddToCart (Some ''b2'') [mug, lamp] ''p1'' shop =
      \<lparr>cr_toast = AddedToCart ''Lamp'', cr_requests = [UpdateProductQuantity ''p1'' 0],
       cr_products = [mug, lamp], cr_db = shop\<rparr>"
    by (simp add: handleAddToCart_def products_eval fetchProducts_def select_products_def
        rls_select_def products_using_SELECT sample_defs)
  have c: "handleAddToCart (Some ''b1'') [mug, lamp] ''p3'' shop =
      \<lparr>cr_toast = AddedToCart ''Mug'', cr_requests = [UpdateProductQuantity ''p3'' 0],
       cr_products = [mug\<lparr>pr_quantity := 0\<rparr>, lamp], cr_db = shop\<lparr>products := [lamp, chair, mug\<lparr>pr_quantity := 0\<rparr>]\<rparr>\<rparr>"
    by (simp add: handleAddToCart_def products_eval fetchProducts_def select_products_def
        rls_select_def products_using_SELECT sample_defs)
  have d: "handleAddToCart (Some ''b1'') [mug, lamp] ''p3''
             (shop\<lparr>products := [lamp, chair, mug\<lparr>pr_quantity := 0\<rparr>]\<rparr>) =
      \<lparr>cr_toast = AddedToCart ''Mug'', cr_requests = [UpdateProductQuantity ''p3'' 0],
       cr_products = [mug\<lparr>pr_quantity := 0\<rparr>, lamp], cr_db = shop\<lparr>products := [lamp, chair, mug\<lparr>pr_quantity := 0\<rparr>]\<rparr>\<rparr>"
    by (simp add: handleAddToCart_def products_eval fetchProducts_def select_products_def
        rls_select_def products_using_SELECT sample_defs)
  have q: "pr_quantity lamp = 1" "pr_quantity mug = 1"
    by (simp_all add: sample_defs)
  show ?thesis
    by (simp add: two_purchases_def fetchProducts_shop a b c d q Let_def)
qed

section \<open>Properties of the add-product form\<close>

lemma insert_products_values_Inr:
  assumes "insert_products_values uid new_id now v db = Inr db'"
  shows "db' = db\<lparr>products := products db @ [values_row new_id now v]\<rparr>"
  using assms
  by (auto simp: insert_products_values_def split: if_splits dest: insert_products_Inr)

lemma handleSubmit_requests:
  assumes "InsertProduct v \<in> set (sr_requests (handleSubmit sv user st db))"
  shows "\<exists>uid. user = Some uid \<and>
           v = submit_values sv uid (dl_formData st)
                 (case dl_imageFile st of None \<Rightarrow> None | Some f \<Rightarrow> uploadImage sv user f)"
  using assms
  by (auto simp: handleSubmit_def Let_def split: option.splits sum.splits)

lemma handleSubmit_sent:
  "sr_requests (handleSubmit sv (Some uid) st db) =
     [InsertProduct (submit_values sv uid (dl_formData st)
        (case dl_imageFile st of None \<Rightarrow> None | Some f \<Rightarrow> uploadImage sv (Some uid) f))]"
  by (auto simp: handleSubmit_def Let_def split: option.splits sum.splits)

lemma handleSubmit_success:
  assumes "sr_toast (handleSubmit sv user st db) = Some ProductAddedSuccessfully"
  shows "\<exists>uid. user = Some uid \<and>
           products (sr_db (handleSubmit sv user st db)) =
             products db @
               [values_row (gen_random_uuid sv) (db_now sv)
                  (submit_values sv uid (dl_formData st)
                     (case dl_imageFile st of None \<Rightarrow> None | Some f \<Rightarrow> uploadImage sv user f))]"
  using assms
  by (auto simp: handleSubmit_def Let_def split: option.splits sum.splits
      dest!: insert_products_values_Inr)

lemma uploadImage_failure:
  "storage_upload sv ''product-images'' (fileName sv user f) f = Some e \<Longrightarrow> uploadImage sv user f = None"
  by (simp add: uploadImage_def)

text \<open>
  C7. When the upload of the image fails, \<open>uploadImage\<close> gives no URL, the
  insert is still sent, with \<open>image_url\<close> null, and the submission ends as a
  submission without an image does: same toast, same database. When it ends
  with the toast of success, the row added has \<open>image_url\<close> NULL.
\<close>

theorem upload_failure_saves_product_without_image:
  assumes "dl_imageFile st = Some f"
    and "storage_upload sv ''product-images'' (fileName sv user f) f = Some e"
  shows "uploadImage sv user f = None
       \<and> (user \<noteq> None \<longrightarrow>
            (\<exists>v. sr_requests (handleSubmit sv user st db) = [InsertProduct v] \<and> pv_image_url v = None))
       \<and> sr_toast (handleSubmit sv user st db) =
           sr_toast (handleSubmit sv user (st\<lparr>dl_imageFile := None\<rparr>) db)
       \<and> sr_db (handleSubmit sv user st db) = sr_db (handleSubmit sv user (st\<lparr>dl_imageFile := None\<rparr>) db)
       \<and> (sr_toast (handleSubmit sv user st db) = Some ProductAddedSuccessfully \<longrightarrow>
            (\<exists>r. products (sr_db (handleSubmit sv user st db)) = products db @ [r]
                 \<and> pr_image_url r = None))"
proof -
  have u: "uploadImage sv user f = None"
    using assms(2) by (rule uploadImage_failure)
  have sent: "\<exists>v. sr_requests (handleSubmit sv user st db) = [InsertProduct v] \<and> pv_image_url v = None"
    if "user \<noteq> None"
  proof -
    from that obtain uid where "user = Some uid" by auto
    then show ?thesis
      using u assms(1) by (simp add: handleSubmit_sent submit_values_def)
  qed
  have same: "sr_toast (handleSubmit sv user st db) =
                sr_toast (handleSubmit sv user (st\<lparr>dl_imageFile := None\<rparr>) db)"
    "sr_db (handleSubmit sv user st db) = sr_db (handleSubmit sv user (st\<lparr>dl_imageFile := None\<rparr>) db)"
    using u assms(1)
    by (auto simp: handleSubmit_def Let_def split: option.splits sum.splits)
  have row: "\<exists>r. products (sr_db (handleSubmit sv user st db)) = products db @ [r] \<and> pr_image_url r = None"
    if "sr_toast (handleSubmit sv user st db) = Some ProductAddedSuccessfully"
    using handleSubmit_success [OF that] u assms(1)
    by (auto simp: values_row_def submit_values_def)
  show ?thesis using u sent same row by blast
qed

lemma handleSubmit_lamp_form:
  "handleSubmit services_down (Some ''s1'') lamp_form shop =
     \<lparr>sr_toast = Some ProductAddedSuccessfully,
      sr_requests =
        [InsertProduct
           \<lparr>pv_seller_id = ''s1'', pv_name = ''Desk lamp'', pv_description = Some ''Small'',
            pv_price = Some 1999, pv_quantity = Some 3, pv_category_id = None,
            pv_image_url = None\<rparr>],
      sr_dialog = \<lparr>dl_open = False, dl_loading = False, dl_imageFile = None, dl_formData = empty_form\<rparr>,
      sr_onProductAdded = True,
      sr_db = shop\<lparr>products := [lamp, chair, mug, desk_lamp]\<rparr>\<rparr>"
  by (simp add: handleSubmit_def Let_def uploadImage_def submit_values_def
      insert_products_values_def values_row_def COALESCE_def products_eval
      services_down_def lamp_form_def photo_def desk_lamp_def sample_defs)

theorem upload_failure_saves_product_without_image_witness:
  "dl_imageFile lamp_form = Some photo
   \<and> storage_upload services_down ''product-images'' (fileName services_down (Some ''s1'') photo) photo =
       Some (ServiceError ''Failed to fetch'')
   \<and> sr_toast (handleSubmit services_down (Some ''s1'') lamp_form shop) = Some ProductAddedSuccessfully
   \<and> (\<exists>r. products (sr_db (handleSubmit services_down (Some ''s1'') lamp_form shop)) =
             products shop @ [r] \<and> pr_image_url r = None)"
proof -
  have a: "dl_imageFile lamp_form = Some photo"
    by (simp add: lamp_form_def)
  have b: "storage_upload services_down ''product-images''
             (fileName services_down (Some ''s1'') photo) photo = Some (ServiceError ''Failed to fetch'')"
    by (simp add: services_down_def)
  have t: "sr_toast (handleSubmit services_down (Some ''s1'') lamp_form shop) =
             Some ProductAddedSuccessfully"
    by (simp add: handleSubmit_lamp_form)
  from upload_failure_saves_product_without_image [OF a b, of shop] t
  have "\<exists>r. products (sr_db (handleSubmit services_down (Some ''s1'') lamp_form shop)) =
             products shop @ [r] \<and> pr_image_url r = None"
    by blast
  with a b t show ?thesis by blast
qed

text \<open>
  C10. When no category is selected, every insert the submission sends has
  \<open>category_id\<close> null, and when it ends with the toast of success, the row
  added has \<open>category_id\<close> NULL, not the empty string.
\<close>

theorem empty_category_inserted_as_null:
  assumes "fd_category_id (dl_formData st) = ''''"
  shows "(user \<noteq> None \<longrightarrow>
            (\<exists>v. sr_requests (handleSubmit sv user st db) = [InsertProduct v] \<and> pv_category_id v = None))
       \<and> (sr_toast (handleSubmit sv user st db) = Some ProductAddedSuccessfully \<longrightarrow>
            (\<exists>r. products (sr_db (handleSubmit sv user st db)) = products db @ [r]
                 \<and> pr_category_id r = None \<and> pr_category_id r \<noteq> Some ''''))"
proof -
  have sent: "\<exists>v. sr_requests (handleSubmit sv user st db) = [InsertProduct v] \<and> pv_category_id v = None"
    if "user \<noteq> None"
  proof -
    from that obtain uid where "user = Some uid" by auto
    then show ?thesis
      using assms by (simp add: handleSubmit_sent submit_values_def)
  qed
  have row: "\<exists>r. products (sr_db (handleSubmit sv user st db)) = products db @ [r]
                 \<and> pr_category_id r = None \<and> pr_category_id r \<noteq> Some ''''"
    if "sr_toast (handleSubmit sv user st db) = Some ProductAddedSuccessfully"
    using handleSubmit_success [OF that] assms
    by (auto simp: values_row_def submit_values_def)
  show ?thesis using sent row by blast
qed

theorem empty_category_inserted_as_null_witness:
  "fd_category_id (dl_formData lamp_form) = ''''
   \<and> sr_toast (handleSubmit services_down (Some ''s1'') lamp_form shop) = Some ProductAddedSuccessfully
   \<and> (\<exists>r. products (sr_db (handleSubmit services_down (Some ''s1'') lamp_form shop)) =
             products shop @ [r] \<and> pr_category_id r = None)"
proof -
  have a: "fd_category_id (dl_formData lamp_form) = ''''"
    by (simp add: lamp_form_def)
  have t: "sr_toast (handleSubmit services_down (Some ''s1'') lamp_form shop) =
             Some ProductAddedSuccessfully"
    by (simp add: handleSubmit_lamp_form)
  from empty_category_inserted_as_null [OF a, of "Some ''s1''" services_down shop] t
  have "\<exists>r. products (sr_db (handleSubmit services_down (Some ''s1'') lamp_form shop)) =
             products shop @ [r] \<and> pr_category_id r = None"
    by blast
  with a t show ?thesis by blast
qed

text \<open>The path of an upload: the id of the user, the clock and the extension.\<close>

lemma fileName_photo: "fileName services_down (Some ''s1'') photo = ''s1/1700000000000.png''"
  by (simp add: fileName_def fileExt_def digit_char_def services_down_def photo_def)

section \<open>A negative quantity\<close>

text \<open>The form accepts a negative quantity, and the table stores it: the
  column has no check.\<close>

lemma negative_quantity_is_stored:
  "sr_toast (handleSubmit services_up (Some ''b1'') vase_form shop) = Some ProductAddedSuccessfully"
  "sr_db (handleSubmit services_up (Some ''b1'') vase_form shop) = shop_with_vase"
  by (simp_all add: handleSubmit_def Let_def submit_values_def insert_products_values_def
      values_row_def COALESCE_def products_eval services_up_def vase_form_def vase_def
      shop_with_vase_def sample_defs)

lemma fetchProducts_shop_with_vase:
  "fetchProducts (Some ''b1'') shop_with_vase = [vase, mug, lamp]"
  by (simp add: fetchProducts_def select_products_def rls_select_def products_using_SELECT
      shop_with_vase_def vase_def sample_defs)

text \<open>
  C8, evaluated. The component's list holds \<open>vase\<close> with quantity -1. The
  button of its card is enabled, and the add-to-cart call does not stop at the
  check of the quantity: it sends an update that writes -2, and the row of the
  owner is written with it.
\<close>

theorem add_to_cart_writes_negative_quantity:
  "pr_quantity vase = - 1
   \<and> ProductCard_click True vase = Some ''p4''
   \<and> cr_toast (handleAddToCart (Some ''b1'') [vase, mug, lamp] ''p4'' shop_with_vase) =
       AddedToCart ''Vase''
   \<and> cr_requests (handleAddToCart (Some ''b1'') [vase, mug, lamp] ''p4'' shop_with_vase) =
       [UpdateProductQuantity ''p4'' (- 2)]
   \<and> products (cr_db (handleAddToCart (Some ''b1'') [vase, mug, lamp] ''p4'' shop_with_vase)) =
       [lamp, chair, mug, vase\<lparr>pr_quantity := - 2\<rparr>]"
  by (simp add: handleAddToCart_def ProductCard_click_def products_eval shop_with_vase_def
      vase_def sample_defs)

end
